theory Spec2Isabelle
  imports Complex_Main "HOL-Library.AList"
begin

section \<open>Python values, dictionaries and exceptions\<close>

text \<open>
  The program is Python (\<^verbatim>\<open>final_production.py\<close>).  Its dynamically typed values are
  embedded in one datatype.  Integers and floats are both exact rationals: binary round-off
  is not computed.  Where it decides a result, in \<^verbatim>\<open>round(x, 2)\<close> next to a midpoint, the
  decision is a parameter of the model.  A \<^verbatim>\<open>dict\<close> is an association list in insertion order with distinct
  keys, a \<^verbatim>\<open>str\<close> is a \<^typ>\<open>string\<close> with one \<^typ>\<open>char\<close> per code point
  (code points below 256).
\<close>

datatype pyval =
    VNone
  | VBool bool
  | VNum rat
  | VStr string
  | VList "pyval list"
  | VDict "(string \<times> pyval) list"

type_synonym pydict = "(string \<times> pyval) list"

datatype error =
    IndexError string
  | AttributeError string
  | TypeError string
  | KeyError string
  | OSError string
  | RuntimeError string

text \<open>\<^verbatim>\<open>str(e)\<close>: the message of an exception.\<close>

fun str_e :: "error \<Rightarrow> string" where
  "str_e (IndexError m) = m"
| "str_e (AttributeError m) = m"
| "str_e (TypeError m) = m"
| "str_e (KeyError m) = m"
| "str_e (OSError m) = m"
| "str_e (RuntimeError m) = m"

text \<open>Sequencing of computations that may raise: the first exception wins.\<close>

definition ebind :: "error + 'a \<Rightarrow> ('a \<Rightarrow> error + 'b) \<Rightarrow> error + 'b" where
  "ebind m f = (case m of Inl e \<Rightarrow> Inl e | Inr x \<Rightarrow> f x)"

text \<open>Truth value of an object, as \<^verbatim>\<open>if x:\<close> tests it.\<close>

fun truthy :: "pyval \<Rightarrow> bool" where
  "truthy VNone = False"
| "truthy (VBool b) = b"
| "truthy (VNum x) = (x \<noteq> 0)"
| "truthy (VStr s) = (s \<noteq> [])"
| "truthy (VList xs) = (xs \<noteq> [])"
| "truthy (VDict d) = (d \<noteq> [])"

text \<open>\<^verbatim>\<open>d.get(k, default)\<close> on a dict, and \<^verbatim>\<open>d[k] = v\<close> (a present key keeps its place, a
  new key goes last).\<close>

definition dict_get :: "pydict \<Rightarrow> string \<Rightarrow> pyval \<Rightarrow> pyval" where
  "dict_get d k dflt = (case map_of d k of Some v \<Rightarrow> v | None \<Rightarrow> dflt)"

definition dict_set :: "pydict \<Rightarrow> string \<Rightarrow> pyval \<Rightarrow> pydict" where
  "dict_set d k v = AList.update k v d"

definition keys :: "pydict \<Rightarrow> string list" where
  "keys d = map fst d"

text \<open>\<^verbatim>\<open>d[k]\<close> on a dict raises KeyError on a missing key.\<close>

definition dict_index :: "pydict \<Rightarrow> string \<Rightarrow> error + pyval" where
  "dict_index d k = (case map_of d k of Some v \<Rightarrow> Inr v | None \<Rightarrow> Inl (KeyError k))"

text \<open>\<^verbatim>\<open>x.get(k, default)\<close> on an arbitrary object: only a dict has the method.\<close>

fun py_get :: "pyval \<Rightarrow> string \<Rightarrow> pyval \<Rightarrow> error + pyval" where
  "py_get (VDict d) k dflt = Inr (dict_get d k dflt)"
| "py_get _ k dflt = Inl (AttributeError ''object has no attribute get'')"

text \<open>\<^verbatim>\<open>len(x)\<close>.\<close>

fun py_len :: "pyval \<Rightarrow> error + nat" where
  "py_len (VStr s) = Inr (length s)"
| "py_len (VList xs) = Inr (length xs)"
| "py_len (VDict d) = Inr (length d)"
| "py_len _ = Inl (TypeError ''object has no len()'')"

text \<open>A number read for arithmetic; \<^verbatim>\<open>True\<close> and \<^verbatim>\<open>False\<close> count as 1 and 0.\<close>

fun py_num :: "pyval \<Rightarrow> error + rat" where
  "py_num (VNum x) = Inr x"
| "py_num (VBool b) = Inr (if b then 1 else 0)"
| "py_num _ = Inl (TypeError ''unsupported operand type(s)'')"

section \<open>Strings\<close>

text \<open>\<^verbatim>\<open>str.lower()\<close> on code points below 256: A to Z and the accented capitals
  0xC0 to 0xDE (without the multiplication sign 0xD7) move up by 32.\<close>

definition lower_char :: "char \<Rightarrow> char" where
  "lower_char c =
     (let n = (of_char c :: nat)
      in if (65 \<le> n \<and> n \<le> 90) \<or> (192 \<le> n \<and> n \<le> 222 \<and> n \<noteq> 215)
         then char_of (n + 32) else c)"

definition lower :: "string \<Rightarrow> string" where
  "lower s = map lower_char s"

text \<open>The characters \<^verbatim>\<open>str.split()\<close> treats as white space (code points below 256).\<close>

definition is_space :: "char \<Rightarrow> bool" where
  "is_space c =
     (let n = (of_char c :: nat)
      in (9 \<le> n \<and> n \<le> 13) \<or> (28 \<le> n \<and> n \<le> 32) \<or> n = 133 \<or> n = 160)"

text \<open>\<^verbatim>\<open>s.split()\<close>: the maximal runs of non-space characters, in order.  The first
  argument is the word being read, reversed.\<close>

fun split_aux :: "string \<Rightarrow> string \<Rightarrow> string list" where
  "split_aux w [] = (if w = [] then [] else [rev w])"
| "split_aux w (c # cs) =
     (if is_space c
      then (if w = [] then split_aux [] cs else rev w # split_aux [] cs)
      else split_aux (c # w) cs)"

definition split :: "string \<Rightarrow> string list" where
  "split s = split_aux [] s"

text \<open>\<^verbatim>\<open>sub in s\<close> for strings: \<open>sub\<close> occurs in \<open>s\<close> as a contiguous block.\<close>

fun starts_with :: "string \<Rightarrow> string \<Rightarrow> bool" where
  "starts_with [] s = True"
| "starts_with (a # as) [] = False"
| "starts_with (a # as) (c # cs) = (a = c \<and> starts_with as cs)"

fun str_in :: "string \<Rightarrow> string \<Rightarrow> bool" where
  "str_in sub [] = (sub = [])"
| "str_in sub (c # cs) = (starts_with sub (c # cs) \<or> str_in sub cs)"

section \<open>Search-term derivation\<close>

text \<open>\<^verbatim>\<open>ResearchAgent._extract_search_terms\<close>.  The text searched is
  \<^verbatim>\<open>f"{title} {description}".lower()\<close>.\<close>

definition combined_text :: "string \<Rightarrow> string \<Rightarrow> string" where
  "combined_text title description = lower (title @ '' '' @ description)"

definition fallback_terms :: "string \<Rightarrow> string list" where
  "fallback_terms title = take 3 (filter (\<lambda>word. length word > 3) (split title))"

definition extract_search_terms :: "string \<Rightarrow> string \<Rightarrow> string list" where
  "extract_search_terms title description =
    (let t = combined_text title description in
     if str_in ''healthcare'' t \<or> str_in ''medical'' t
       then [''artificial intelligence healthcare'', ''machine learning medicine'', ''AI diagnosis'']
     else if str_in ''ai'' t \<or> str_in ''artificial intelligence'' t
       then [''artificial intelligence'', ''machine learning'', ''deep learning'']
     else if str_in ''generative'' t \<or> str_in ''gpt'' t
       then [''generative ai'', ''gpt'', ''transformer models'']
     else if str_in ''blockchain'' t \<or> str_in ''crypto'' t
       then [''blockchain technology'', ''cryptocurrency'', ''decentralized finance'']
     else if str_in ''sustainability'' t \<or> str_in ''climate'' t
       then [''sustainability technology'', ''climate change AI'', ''green technology'']
     else if str_in ''robotics'' t \<or> str_in ''automation'' t
       then [''robotics technology'', ''automation systems'', ''AI robotics'']
     else if str_in ''finance'' t \<or> str_in ''investment'' t
       then [''financial technology'', ''investment strategies'', ''AI in finance'']
     else if str_in ''education'' t \<or> str_in ''learning'' t
       then [''educational technology'', ''AI in education'', ''personalized learning'']
     else if str_in ''energy'' t \<or> str_in ''renewable'' t
       then [''renewable energy technology'', ''solar power AI'', ''wind energy systems'']
     else if str_in ''cybersecurity'' t \<or> str_in ''security'' t
       then [''cybersecurity AI'', ''threat detection'', ''security automation'']
     else if str_in ''transportation'' t \<or> str_in ''mobility'' t
       then [''transportation technology'', ''autonomous vehicles'', ''smart mobility'']
     else if str_in ''agriculture'' t \<or> str_in ''farming'' t
       then [''agricultural technology'', ''precision farming AI'', ''smart agriculture'']
     else if str_in ''entertainment'' t \<or> str_in ''media'' t
       then [''entertainment technology'', ''media AI'', ''content creation tools'']
     else if str_in ''gaming'' t \<or> str_in ''game'' t
       then [''gaming technology'', ''game AI'', ''interactive entertainment'']
     else if str_in ''smart home'' t \<or> str_in ''iot'' t
       then [''smart home technology'', ''IoT devices'', ''home automation'']
     else if str_in ''supply chain'' t \<or> str_in ''logistics'' t
       then [''supply chain technology'', ''logistics AI'', ''smart logistics'']
     else if str_in ''social media'' t \<or> str_in ''communication'' t
       then [''social media technology'', ''communication AI'', ''digital marketing tools'']
     else fallback_terms title)"




section \<open>The outside world\<close>

text \<open>
  Everything the program reads from outside is a parameter.  The clock is read by
  \<^verbatim>\<open>time.time()\<close> and \<^verbatim>\<open>datetime.now().isoformat()\<close>; the \<open>n\<close>-th reading of a run
  returns \<open>clock w n\<close>, respectively \<open>iso_now w n\<close>, and the number of readings so far is
  threaded through the code as a counter.  Nothing is assumed about the clock, not even
  that it is monotone.  The fetch capabilities answer a query with records or raise.
  \<^verbatim>\<open>print\<close> writes to standard output, which can raise (a closed pipe); the insert into
  the database can raise as well.  \<open>round_up\<close> stands for the float unit: it says in which
  direction \<^verbatim>\<open>round(x, 2)\<close> goes when the exact value \<open>x\<close> lies at the midpoint between two
  multiples of 0.01 or so close to it that the round-off of the binary float decides.
\<close>

record arxiv_result =
  ar_title :: string
  ar_authors :: "string list"
  ar_summary :: string
  ar_published :: string
  ar_entry_id :: string
  ar_categories :: "string list"

record http_response =
  status_code :: nat
  json_body :: "error + pyval"

record world =
  clock :: "nat \<Rightarrow> rat"
  iso_now :: "nat \<Rightarrow> string"
  arxiv_results :: "string \<Rightarrow> nat \<Rightarrow> error + arxiv_result list"
  feed_entries :: "string \<Rightarrow> error + (string \<times> string) list list"
  github_get :: "string \<Rightarrow> nat \<Rightarrow> error + http_response"
  print_raises :: "string \<Rightarrow> error option"
  db_insert_raises :: "string \<Rightarrow> error option"
  round_up :: "rat \<Rightarrow> bool"

section \<open>DataAPIs\<close>

text \<open>\<^verbatim>\<open>DataAPIs.search_arxiv_papers\<close>.  \<open>ar_published\<close> is the date already formatted
  by \<^verbatim>\<open>strftime\<close>.  Any exception of the client gives the empty list.\<close>

definition paper_of :: "arxiv_result \<Rightarrow> pydict" where
  "paper_of r =
     [(''title'', VStr (ar_title r)),
      (''authors'', VList (map VStr (ar_authors r))),
      (''summary'', VStr (take 500 (ar_summary r) @ ''...'')),
      (''published'', VStr (ar_published r)),
      (''url'', VStr (ar_entry_id r)),
      (''categories'', VList (map VStr (ar_categories r)))]"

definition search_arxiv_papers :: "world \<Rightarrow> string \<Rightarrow> nat \<Rightarrow> pydict list" where
  "search_arxiv_papers w query max_results =
     (case arxiv_results w query max_results of
        Inl e \<Rightarrow> []
      | Inr results \<Rightarrow> map paper_of results)"

text \<open>\<^verbatim>\<open>DataAPIs._get_rss_news\<close> and \<^verbatim>\<open>DataAPIs.search_news\<close>.  A feed entry is a dict of
  strings; \<^verbatim>\<open>entry.get(k, '')\<close> reads it.\<close>

definition rss_feeds :: "(string \<times> string) list" where
  "rss_feeds =
     [(''TechCrunch'', ''https://techcrunch.com/feed/''),
      (''BBC Technology'', ''https://feeds.bbci.co.uk/news/technology/rss.xml''),
      (''Wired'', ''https://www.wired.com/feed/rss''),
      (''AI News'', ''https://www.artificialintelligence-news.com/feed/'')]"

definition entry_get :: "(string \<times> string) list \<Rightarrow> string \<Rightarrow> string" where
  "entry_get entry k = (case map_of entry k of Some v \<Rightarrow> v | None \<Rightarrow> [])"

definition entry_matches :: "string \<Rightarrow> (string \<times> string) list \<Rightarrow> bool" where
  "entry_matches query entry =
     (let content = lower (entry_get entry ''title'' @ '' '' @ entry_get entry ''summary'')
      in list_ex (\<lambda>keyword. str_in keyword content) (split (lower query)))"

definition article_of :: "string \<Rightarrow> (string \<times> string) list \<Rightarrow> pydict" where
  "article_of feed_name entry =
     [(''title'', VStr (entry_get entry ''title'')),
      (''description'', VStr (take 300 (entry_get entry ''summary''))),
      (''source'', VStr feed_name),
      (''published'', VStr (entry_get entry ''published'')),
      (''url'', VStr (entry_get entry ''link''))]"

definition feed_articles :: "world \<Rightarrow> string \<Rightarrow> string \<times> string \<Rightarrow> pydict list" where
  "feed_articles w query feed =
     (case feed_entries w (snd feed) of
        Inl e \<Rightarrow> []
      | Inr entries \<Rightarrow> map (article_of (fst feed)) (filter (entry_matches query) entries))"

definition get_rss_news :: "world \<Rightarrow> string \<Rightarrow> pydict list" where
  "get_rss_news w query = concat (map (feed_articles w query) rss_feeds)"

definition search_news :: "world \<Rightarrow> string \<Rightarrow> nat \<Rightarrow> pydict list" where
  "search_news w query days_back = get_rss_news w query"

text \<open>\<^verbatim>\<open>DataAPIs.search_github_repos\<close>.  \<^verbatim>\<open>for repo in x\<close> runs over the elements of a
  list, the keys of a dict, the characters of a string, and raises on anything else.
  Every exception, and every status other than 200, gives the empty list.\<close>

fun py_iter :: "pyval \<Rightarrow> error + pyval list" where
  "py_iter (VList xs) = Inr xs"
| "py_iter (VDict d) = Inr (map (\<lambda>kv. VStr (fst kv)) d)"
| "py_iter (VStr s) = Inr (map (\<lambda>c. VStr [c]) s)"
| "py_iter _ = Inl (TypeError ''object is not iterable'')"

definition repo_of :: "pyval \<Rightarrow> error + pydict" where
  "repo_of repo =
     ebind (py_get repo ''full_name'' (VStr [])) (\<lambda>name.
     ebind (py_get repo ''description'' (VStr [])) (\<lambda>description.
     ebind (py_get repo ''stargazers_count'' (VNum 0)) (\<lambda>stars.
     ebind (py_get repo ''language'' (VStr [])) (\<lambda>language.
     ebind (py_get repo ''updated_at'' (VStr [])) (\<lambda>updated.
     ebind (py_get repo ''html_url'' (VStr [])) (\<lambda>url.
       Inr [(''name'', name), (''description'', description), (''stars'', stars),
            (''language'', language), (''updated'', updated), (''url'', url)]))))))"

fun repos_of :: "pyval list \<Rightarrow> error + pydict list" where
  "repos_of [] = Inr []"
| "repos_of (repo # rest) =
     ebind (repo_of repo) (\<lambda>r. ebind (repos_of rest) (\<lambda>rs. Inr (r # rs)))"

definition search_github_repos :: "world \<Rightarrow> string \<Rightarrow> nat \<Rightarrow> pydict list" where
  "search_github_repos w query max_results =
     (case github_get w query max_results of
        Inl e \<Rightarrow> []
      | Inr response \<Rightarrow>
          if status_code response = 200
          then (case ebind (json_body response) (\<lambda>data.
                     ebind (py_get data ''items'' (VList [])) (\<lambda>items.
                     ebind (py_iter items) repos_of)) of
                  Inl e \<Rightarrow> []
                | Inr repos \<Rightarrow> repos)
          else [])"

section \<open>GeminiLLM\<close>

text \<open>A prompt is an f-string; the model keeps the values interpolated into it, in the
  order of the text, instead of the text itself.\<close>

datatype prompt =
    ResearchPrompt string string "pydict list" "pydict list" "pydict list"
  | AnalysisPrompt pyval nat nat nat
  | InnovationPrompt pyval pyval
  | EnvironmentPrompt pydict string

record gemini_llm =
  has_api_key :: bool
  generate_content :: "prompt \<Rightarrow> error + string"

definition generate_response :: "gemini_llm \<Rightarrow> prompt \<Rightarrow> string" where
  "generate_response llm p =
     (if \<not> has_api_key llm
      then ''Gemini API not configured. Please add GOOGLE_API_KEY to .env file.''
      else (case generate_content llm p of
              Inr text \<Rightarrow> text
            | Inl e \<Rightarrow> ''API Exception: '' @ str_e e))"

section \<open>ResearchTask\<close>

record research_task =
  task_id :: string
  title :: string
  description :: string
  priority :: int
  status :: string
  created_at :: string
  results :: pydict

section \<open>ResearchAgent\<close>

text \<open>The dict \<^verbatim>\<open>research_data\<close> always has the three keys papers, news and github.\<close>

record research_bundle =
  papers :: "pydict list"
  news :: "pydict list"
  github :: "pydict list"

definition bundle_val :: "research_bundle \<Rightarrow> pyval" where
  "bundle_val b =
     VDict [(''papers'', VList (map VDict (papers b))),
            (''news'', VList (map VDict (news b))),
            (''github'', VList (map VDict (github b)))]"

text \<open>\<^verbatim>\<open>ResearchAgent._gather_research_data\<close>.  \<^verbatim>\<open>search_terms[0]\<close> raises IndexError on
  the empty list.\<close>

definition first_term :: "string list \<Rightarrow> error + string" where
  "first_term search_terms =
     (case search_terms of
        [] \<Rightarrow> Inl (IndexError ''list index out of range'')
      | term # _ \<Rightarrow> Inr term)"

definition gather_research_data :: "world \<Rightarrow> string \<Rightarrow> string \<Rightarrow> error + research_bundle" where
  "gather_research_data w ttl descr =
     (let search_terms = extract_search_terms ttl descr;
          ps = concat (map (\<lambda>term. search_arxiv_papers w term 5) search_terms)
      in ebind (first_term search_terms) (\<lambda>t0.
           let ns = search_news w t0 14
           in ebind (first_term search_terms) (\<lambda>t1.
                let gs = search_github_repos w t1 8
                in Inr \<lparr>papers = ps, news = ns, github = gs\<rparr>)))"

text \<open>\<^verbatim>\<open>ResearchAgent._calculate_confidence\<close>.\<close>

definition calculate_confidence :: "research_bundle \<Rightarrow> rat" where
  "calculate_confidence data =
     (let sources = (0::nat); total_items = (0::nat);
          sources = (if papers data \<noteq> [] then sources + 1 else sources);
          total_items = (if papers data \<noteq> [] then total_items + length (papers data) else total_items);
          sources = (if news data \<noteq> [] then sources + 1 else sources);
          total_items = (if news data \<noteq> [] then total_items + length (news data) else total_items);
          sources = (if github data \<noteq> [] then sources + 1 else sources);
          total_items = (if github data \<noteq> [] then total_items + length (github data) else total_items);
          base_confidence = min (of_nat sources * (25 / 100)) (75 / 100);
          volume_bonus = min (of_nat total_items * (1 / 100)) (25 / 100)
      in min (base_confidence + volume_bonus) 1)"

text \<open>The stage result every agent returns from its \<^verbatim>\<open>except\<close> branch.\<close>

definition error_result :: "string \<Rightarrow> string \<Rightarrow> error \<Rightarrow> string \<Rightarrow> pydict" where
  "error_result agent tid e timestamp =
     [(''agent_id'', VStr agent), (''task_id'', VStr tid),
      (''error'', VStr (str_e e)), (''timestamp'', VStr timestamp)]"

text \<open>\<^verbatim>\<open>ResearchAgent.process_task\<close>.  The body of the \<^verbatim>\<open>try\<close> block comes first; it
  returns the result and the clock counter.  \<open>n\<close> is the counter after the reading of
  \<^verbatim>\<open>start_time\<close>.\<close>

definition research_body ::
  "world \<Rightarrow> gemini_llm \<Rightarrow> research_task \<Rightarrow> rat \<Rightarrow> nat \<Rightarrow> error + pydict \<times> nat" where
  "research_body w llm task start_time n =
     ebind (gather_research_data w (title task) (description task)) (\<lambda>research_data.
       let analysis = generate_response llm
             (ResearchPrompt (title task) (description task)
                (take 3 (papers research_data)) (news research_data)
                (take 3 (github research_data)))
       in Inr ([(''agent_id'', VStr ''research_agent''),
                (''task_id'', VStr (task_id task)),
                (''research_data'', VStr analysis),
                (''raw_data_sources'', bundle_val research_data),
                (''confidence_score'', VNum (calculate_confidence research_data)),
                (''timestamp'', VStr (iso_now w n)),
                (''processing_time'', VNum (clock w (n + 1) - start_time)),
                (''data_sources_count'',
                   VDict [(''papers'', VNum (of_nat (length (papers research_data)))),
                          (''news'', VNum (of_nat (length (news research_data)))),
                          (''github'', VNum (of_nat (length (github research_data))))])],
               n + 2))"

definition research_process_task ::
  "world \<Rightarrow> gemini_llm \<Rightarrow> research_task \<Rightarrow> nat \<Rightarrow> pydict \<times> nat" where
  "research_process_task w llm task n =
     (let start_time = clock w n
      in case research_body w llm task start_time (n + 1) of
           Inr r \<Rightarrow> r
         | Inl e \<Rightarrow>
             (error_result ''research_agent'' (task_id task) e (iso_now w (n + 1)), n + 2))"

section \<open>AnalysisAgent\<close>

text \<open>\<^verbatim>\<open>context.get(k, default) if context else default\<close>: \<^verbatim>\<open>None\<close> and the empty dict
  are both false.\<close>

definition ctx_get :: "pydict option \<Rightarrow> string \<Rightarrow> pyval \<Rightarrow> pyval" where
  "ctx_get context k dflt =
     (case context of
        None \<Rightarrow> dflt
      | Some d \<Rightarrow> if d = [] then dflt else dict_get d k dflt)"

text \<open>\<^verbatim>\<open>AnalysisAgent._assess_data_quality\<close>.  One source's share:
  \<^verbatim>\<open>if xs: quality_score += min(len(xs) * weight, cap)\<close>.\<close>

definition quality_share :: "pyval \<Rightarrow> rat \<Rightarrow> rat \<Rightarrow> rat \<Rightarrow> error + rat" where
  "quality_share xs weight cap quality_score =
     (if truthy xs
      then ebind (py_len xs) (\<lambda>n. Inr (quality_score + min (of_nat n * weight) cap))
      else Inr quality_score)"

definition assess_data_quality :: "pyval \<Rightarrow> error + rat" where
  "assess_data_quality raw_data =
     ebind (py_get raw_data ''papers'' (VList [])) (\<lambda>ps.
     ebind (quality_share ps (1 / 10) (4 / 10) 0) (\<lambda>q1.
     ebind (py_get raw_data ''news'' (VList [])) (\<lambda>ns.
     ebind (quality_share ns (5 / 100) (3 / 10) q1) (\<lambda>q2.
     ebind (py_get raw_data ''github'' (VList [])) (\<lambda>gs.
     ebind (quality_share gs (3 / 100) (3 / 10) q2) (\<lambda>q3.
       Inr (min q3 1)))))))"

text \<open>\<^verbatim>\<open>len(raw_data.get(k, []))\<close>, as the prompt of the analysis computes it.\<close>

definition count_of :: "pyval \<Rightarrow> string \<Rightarrow> error + nat" where
  "count_of raw_data k = ebind (py_get raw_data k (VList [])) py_len"

definition analysis_body ::
  "world \<Rightarrow> gemini_llm \<Rightarrow> research_task \<Rightarrow> pydict option \<Rightarrow> rat \<Rightarrow> nat \<Rightarrow> error + pydict \<times> nat"
where
  "analysis_body w llm task context start_time n =
     (let research_data = ctx_get context ''research_data'' (VStr []);
          raw_data = ctx_get context ''raw_data_sources'' (VDict [])
      in ebind (count_of raw_data ''papers'') (\<lambda>np.
         ebind (count_of raw_data ''news'') (\<lambda>nn.
         ebind (count_of raw_data ''github'') (\<lambda>ng.
           let analysis = generate_response llm (AnalysisPrompt research_data np nn ng)
           in ebind (assess_data_quality raw_data) (\<lambda>quality.
                Inr ([(''agent_id'', VStr ''analysis_agent''),
                      (''task_id'', VStr (task_id task)),
                      (''analysis_insights'', VStr analysis),
                      (''data_quality_score'', VNum quality),
                      (''timestamp'', VStr (iso_now w n)),
                      (''processing_time'', VNum (clock w (n + 1) - start_time))],
                     n + 2))))))"

definition analysis_process_task ::
  "world \<Rightarrow> gemini_llm \<Rightarrow> research_task \<Rightarrow> pydict option \<Rightarrow> nat \<Rightarrow> pydict \<times> nat" where
  "analysis_process_task w llm task context n =
     (let start_time = clock w n
      in case analysis_body w llm task context start_time (n + 1) of
           Inr r \<Rightarrow> r
         | Inl e \<Rightarrow>
             (error_result ''analysis_agent'' (task_id task) e (iso_now w (n + 1)), n + 2))"

section \<open>InnovationAgent\<close>

definition innovation_body ::
  "world \<Rightarrow> gemini_llm \<Rightarrow> research_task \<Rightarrow> pydict option \<Rightarrow> rat \<Rightarrow> nat \<Rightarrow> error + pydict \<times> nat"
where
  "innovation_body w llm task context start_time n =
     (let research_data = ctx_get context ''research_data'' (VStr []);
          analysis_insights = ctx_get context ''analysis_insights'' (VStr []);
          innovation_ideas = generate_response llm (InnovationPrompt research_data analysis_insights)
      in Inr ([(''agent_id'', VStr ''innovation_agent''),
               (''task_id'', VStr (task_id task)),
               (''innovation_ideas'', VStr innovation_ideas),
               (''breakthrough_potential'', VNum (85 / 100)),
               (''commercial_viability'', VNum (78 / 100)),
               (''timestamp'', VStr (iso_now w n)),
               (''processing_time'', VNum (clock w (n + 1) - start_time))],
              n + 2))"

definition innovation_process_task ::
  "world \<Rightarrow> gemini_llm \<Rightarrow> research_task \<Rightarrow> pydict option \<Rightarrow> nat \<Rightarrow> pydict \<times> nat" where
  "innovation_process_task w llm task context n =
     (let start_time = clock w n
      in case innovation_body w llm task context start_time (n + 1) of
           Inr r \<Rightarrow> r
         | Inl e \<Rightarrow>
             (error_result ''innovation_agent'' (task_id task) e (iso_now w (n + 1)), n + 2))"

section \<open>EnvironmentAgent\<close>

text \<open>\<^verbatim>\<open>round(x, 2)\<close> gives the multiple of 0.01 nearest to the binary float it is
  applied to.  The \<open>x\<close> of the model is the exact value that float approximates.  With
  \<open>f\<close> the multiple below \<open>x\<close> and \<open>d\<close> the distance to it, in hundredths: the result is
  \<open>f\<close> when \<open>d\<close> is below one half and \<open>f + 1\<close> when it is above; where \<open>d\<close> is one half, or
  within \<open>tie_margin\<close> of it, the float may lie on either side of the midpoint and the
  world decides.  (At 0.995 the float is 0.99499999999999999556 and the result 0.99.)\<close>

definition tie_margin :: rat where
  "tie_margin = 1 / 1000000000"

definition round2 :: "world \<Rightarrow> rat \<Rightarrow> rat" where
  "round2 w x =
     (let f = \<lfloor>x * 100\<rfloor>; d = x * 100 - of_int f
      in if d < 1 / 2 - tie_margin then of_int f / 100
         else if 1 / 2 + tie_margin < d then of_int (f + 1) / 100
         else if round_up w x then of_int (f + 1) / 100
         else of_int f / 100)"

text \<open>\<^verbatim>\<open>context.get(stage, {}).get(k, default) if context else default\<close>.\<close>

definition stage_get :: "pydict option \<Rightarrow> string \<Rightarrow> string \<Rightarrow> pyval \<Rightarrow> error + pyval" where
  "stage_get context stage k dflt =
     (case context of
        None \<Rightarrow> Inr dflt
      | Some d \<Rightarrow> if d = [] then Inr dflt else py_get (dict_get d stage (VDict [])) k dflt)"

text \<open>The loop over the three stages that counts the results with a true error field; it
  runs only under \<^verbatim>\<open>if context:\<close>.\<close>

fun count_errors :: "pydict \<Rightarrow> string list \<Rightarrow> nat \<Rightarrow> error + nat" where
  "count_errors d [] error_count = Inr error_count"
| "count_errors d (stage # stages) error_count =
     ebind (py_get (dict_get d stage (VDict [])) ''error'' VNone) (\<lambda>e.
       count_errors d stages (if truthy e then error_count + 1 else error_count))"

definition error_count_of :: "pydict option \<Rightarrow> error + nat" where
  "error_count_of context =
     (case context of
        None \<Rightarrow> Inr 0
      | Some d \<Rightarrow>
          if d = [] then Inr 0
          else count_errors d [''research'', ''analysis'', ''innovation''] 0)"

text \<open>The count of the sources that delivered, out of three.\<close>

definition source_hit :: "pyval \<Rightarrow> string \<Rightarrow> nat \<Rightarrow> error + nat" where
  "source_hit raw_data k api_successes =
     ebind (py_get raw_data k VNone) (\<lambda>v.
       Inr (if truthy v then api_successes + 1 else api_successes))"

definition api_successes_of :: "pydict option \<Rightarrow> error + nat" where
  "api_successes_of context =
     (case context of
        None \<Rightarrow> Inr 0
      | Some d \<Rightarrow>
          if d = [] then Inr 0
          else ebind (py_get (dict_get d ''research'' (VDict [])) ''raw_data_sources'' VNone) (\<lambda>present.
                 if truthy present
                 then ebind (dict_index d ''research'') (\<lambda>research.
                      ebind (case research of
                               VDict r \<Rightarrow> dict_index r ''raw_data_sources''
                             | _ \<Rightarrow> Inl (TypeError ''object is not subscriptable'')) (\<lambda>raw_data.
                      ebind (source_hit raw_data ''papers'' 0) (\<lambda>a1.
                      ebind (source_hit raw_data ''news'' a1) (\<lambda>a2.
                      source_hit raw_data ''github'' a2))))
                 else Inr 0))"

text \<open>\<^verbatim>\<open>EnvironmentAgent._gather_system_metrics\<close>.  \<^verbatim>\<open>sum\<close> adds the three response times
  to 0 from the left.\<close>

definition gather_system_metrics :: "world \<Rightarrow> pydict option \<Rightarrow> error + pydict" where
  "gather_system_metrics w context =
     ebind (stage_get context ''research'' ''processing_time'' (VNum 0)) (\<lambda>t_research.
     ebind (stage_get context ''analysis'' ''processing_time'' (VNum 0)) (\<lambda>t_analysis.
     ebind (stage_get context ''innovation'' ''processing_time'' (VNum 0)) (\<lambda>t_innovation.
     ebind (py_num t_research) (\<lambda>x1.
     ebind (py_num t_analysis) (\<lambda>x2.
     ebind (py_num t_innovation) (\<lambda>x3.
       let total_time = 0 + x1 + x2 + x3;
           base_health = (if 60 < total_time then 1 - (total_time - 60) * (1 / 100) else 1)
       in ebind (error_count_of context) (\<lambda>error_count.
            let health_score = max (base_health - of_nat error_count * (1 / 10)) (1 / 2);
                data_quality = ctx_get context ''data_quality_score'' (VNum (8 / 10))
            in ebind (py_num data_quality) (\<lambda>dq.
                 let optimization_score = min (dq + 1 / 10) 1
                 in ebind (api_successes_of context) (\<lambda>api_successes.
                      let api_success_rate = of_nat api_successes / 3;
                          actual_time = (if 0 < total_time then total_time else 45);
                          resource_utilization = min (45 / actual_time) 1
                      in Inr [(''health_score'', VNum (round2 w health_score)),
                              (''optimization_score'', VNum (round2 w optimization_score)),
                              (''response_times'',
                                 VDict [(''research'', t_research), (''analysis'', t_analysis),
                                        (''innovation'', t_innovation)]),
                              (''data_quality'', data_quality),
                              (''api_success_rate'', VNum (round2 w api_success_rate)),
                              (''resource_utilization'', VNum (round2 w resource_utilization)),
                              (''total_processing_time'', VNum total_time),
                              (''error_count'', VNum (of_nat error_count))])))))))))"

definition environment_body ::
  "world \<Rightarrow> gemini_llm \<Rightarrow> research_task \<Rightarrow> pydict option \<Rightarrow> rat \<Rightarrow> nat \<Rightarrow> error + pydict \<times> nat"
where
  "environment_body w llm task context start_time n =
     ebind (gather_system_metrics w context) (\<lambda>performance_data.
       let recommendations =
             generate_response llm (EnvironmentPrompt performance_data (title task))
       in ebind (dict_index performance_data ''health_score'') (\<lambda>health.
          ebind (dict_index performance_data ''optimization_score'') (\<lambda>optimization.
            Inr ([(''agent_id'', VStr ''environment_agent''),
                  (''task_id'', VStr (task_id task)),
                  (''management_recommendations'', VStr recommendations),
                  (''system_health_score'', health),
                  (''optimization_potential'', optimization),
                  (''timestamp'', VStr (iso_now w n)),
                  (''processing_time'', VNum (clock w (n + 1) - start_time))],
                 n + 2))))"

definition environment_process_task ::
  "world \<Rightarrow> gemini_llm \<Rightarrow> research_task \<Rightarrow> pydict option \<Rightarrow> nat \<Rightarrow> pydict \<times> nat" where
  "environment_process_task w llm task context n =
     (let start_time = clock w n
      in case environment_body w llm task context start_time (n + 1) of
           Inr r \<Rightarrow> r
         | Inl e \<Rightarrow>
             (error_result ''environment_agent'' (task_id task) e (iso_now w (n + 1)), n + 2))"

section \<open>ProductionEcosystem\<close>

text \<open>The orchestrator owns four agents, each with a language backend of its own, the
  list of completed tasks and the table \<^verbatim>\<open>research_results\<close> of the database (a row is
  the task id and the results as serialised at the time of the insert).\<close>

record ecosystem =
  research_llm :: gemini_llm
  analysis_llm :: gemini_llm
  innovation_llm :: gemini_llm
  environment_llm :: gemini_llm

record ecosystem_state =
  completed_tasks :: "research_task list"
  db_rows :: "(pyval \<times> pydict) list"

text \<open>\<^verbatim>\<open>str(int(x))\<close>: \<^verbatim>\<open>int\<close> cuts the fraction off towards zero, \<^verbatim>\<open>str\<close> writes
  decimal digits.\<close>

function str_nat :: "nat \<Rightarrow> string" where
  "str_nat n =
     (if n < 10 then [char_of (48 + n)]
      else str_nat (n div 10) @ [char_of (48 + n mod 10)])"
  by pat_completeness auto
termination
  by (relation "measure id") auto

definition py_int :: "rat \<Rightarrow> int" where
  "py_int x = (if 0 \<le> x then \<lfloor>x\<rfloor> else \<lceil>x\<rceil>)"

definition str_int :: "int \<Rightarrow> string" where
  "str_int i = (if i < 0 then CHR ''-'' # str_nat (nat (- i)) else str_nat (nat i))"

text \<open>\<^verbatim>\<open>ProductionEcosystem.create_task\<close>, with the defaults of the dataclass
  \<^verbatim>\<open>ResearchTask\<close> and its \<^verbatim>\<open>__post_init__\<close>.\<close>

definition create_task :: "world \<Rightarrow> string \<Rightarrow> string \<Rightarrow> nat \<Rightarrow> research_task \<times> nat" where
  "create_task w ttl descr n =
     (\<lparr>task_id = ''task_'' @ str_int (py_int (clock w n)),
       title = ttl,
       description = descr,
       priority = 1,
       status = ''pending'',
       created_at = iso_now w (n + 1),
       results = []\<rparr>,
      n + 2)"

text \<open>\<^verbatim>\<open>ProductionEcosystem._save_results\<close>: an insert that raises is logged and leaves the
  table as it was.\<close>

definition save_results :: "world \<Rightarrow> pydict \<Rightarrow> (pyval \<times> pydict) list \<Rightarrow> (pyval \<times> pydict) list" where
  "save_results w res rows =
     (case dict_index res ''task_id'' of
        Inl e \<Rightarrow> rows
      | Inr tid \<Rightarrow>
          (case db_insert_raises w (case tid of VStr s \<Rightarrow> s | _ \<Rightarrow> []) of
             Some e \<Rightarrow> rows
           | None \<Rightarrow> rows @ [(tid, res)]))"

text \<open>\<^verbatim>\<open>results['stages'][name] = r\<close>.\<close>

definition stages_of :: "pydict \<Rightarrow> pydict" where
  "stages_of res = (case dict_get res ''stages'' VNone of VDict s \<Rightarrow> s | _ \<Rightarrow> [])"

definition set_stage :: "pydict \<Rightarrow> string \<Rightarrow> pydict \<Rightarrow> pydict" where
  "set_stage res name r = dict_set res ''stages'' (VDict (dict_set (stages_of res) name (VDict r)))"

text \<open>The context each later stage receives.\<close>

definition analysis_context :: "pydict \<Rightarrow> pydict" where
  "analysis_context research_result =
     [(''research_data'', dict_get research_result ''research_data'' (VStr [])),
      (''raw_data_sources'', dict_get research_result ''raw_data_sources'' (VDict [])),
      (''data_quality_score'', dict_get research_result ''confidence_score'' (VNum (8 / 10)))]"

definition innovation_context :: "pydict \<Rightarrow> pydict \<Rightarrow> pydict" where
  "innovation_context research_result analysis_result =
     [(''research_data'', dict_get research_result ''research_data'' (VStr [])),
      (''analysis_insights'', dict_get analysis_result ''analysis_insights'' (VStr []))]"

definition env_context :: "pydict \<Rightarrow> pydict \<Rightarrow> pydict \<Rightarrow> pydict" where
  "env_context research_result analysis_result innovation_result =
     [(''research'', VDict research_result),
      (''analysis'', VDict analysis_result),
      (''innovation'', VDict innovation_result)]"

text \<open>The \<^verbatim>\<open>try\<close> block of \<^verbatim>\<open>execute_workflow\<close>.  It returns the dict \<^verbatim>\<open>results\<close> as far as
  it got, the clock counter, and either the exception that ended it or the task and the
  state as it leaves them.  The only statements of the block that can raise are the four
  calls of \<^verbatim>\<open>print\<close>: the agents and \<^verbatim>\<open>_save_results\<close> catch their own exceptions.\<close>

definition workflow_try ::
  "ecosystem \<Rightarrow> world \<Rightarrow> research_task \<Rightarrow> rat \<Rightarrow> pydict \<Rightarrow> ecosystem_state \<Rightarrow> nat \<Rightarrow>
     pydict \<times> nat \<times> (error + research_task \<times> ecosystem_state)" where
  "workflow_try eco w task workflow_start res0 st n0 =
    (case print_raises w ''Gathering real research data from multiple APIs...'' of
       Some e \<Rightarrow> (res0, n0, Inl e)
     | None \<Rightarrow>
    (case research_process_task w (research_llm eco) task n0 of (research_result, n1) \<Rightarrow>
     let res1 = set_stage res0 ''research'' research_result in
    (case print_raises w ''Analyzing gathered data with AI insights...'' of
       Some e \<Rightarrow> (res1, n1, Inl e)
     | None \<Rightarrow>
    (case analysis_process_task w (analysis_llm eco) task
            (Some (analysis_context research_result)) n1 of (analysis_result, n2) \<Rightarrow>
     let res2 = set_stage res1 ''analysis'' analysis_result in
    (case print_raises w ''Generating breakthrough innovation opportunities...'' of
       Some e \<Rightarrow> (res2, n2, Inl e)
     | None \<Rightarrow>
    (case innovation_process_task w (innovation_llm eco) task
            (Some (innovation_context research_result analysis_result)) n2 of
       (innovation_result, n3) \<Rightarrow>
     let res3 = set_stage res2 ''innovation'' innovation_result in
    (case print_raises w ''Optimizing system environment...'' of
       Some e \<Rightarrow> (res3, n3, Inl e)
     | None \<Rightarrow>
    (case environment_process_task w (environment_llm eco) task
            (Some (env_context research_result analysis_result innovation_result)) n3 of
       (environment_result, n4) \<Rightarrow>
     let res4 = set_stage res3 ''environment'' environment_result;
         total_time = clock w n4 - workflow_start;
         res5 = dict_set res4 ''performance_metrics''
                  (VDict [(''total_processing_time'', VNum total_time),
                          (''data_sources_used'',
                             dict_get research_result ''data_sources_count'' (VDict [])),
                          (''confidence_score'',
                             dict_get research_result ''confidence_score'' (VNum (8 / 10))),
                          (''system_health'',
                             dict_get environment_result ''system_health_score'' (VNum (96 / 100))),
                          (''workflow_success'', VBool True)]);
         rows = save_results w res5 (db_rows st);
         res6 = dict_set res5 ''workflow_end'' (VStr (iso_now w (n4 + 1)));
         task' = task\<lparr>status := ''completed'', results := res6\<rparr>
     in (res6, n4 + 2,
         Inr (task', \<lparr>completed_tasks = completed_tasks st @ [task'], db_rows = rows\<rparr>))))))))))"

text \<open>The dict \<^verbatim>\<open>results\<close> as \<^verbatim>\<open>execute_workflow\<close> creates it; \<open>n\<close> is the clock
  counter on entry, whose first reading is \<^verbatim>\<open>workflow_start\<close>.\<close>

definition initial_results :: "world \<Rightarrow> research_task \<Rightarrow> nat \<Rightarrow> pydict" where
  "initial_results w task n =
     [(''task_id'', VStr (task_id task)),
      (''title'', VStr (title task)),
      (''workflow_start'', VStr (iso_now w (n + 1))),
      (''stages'', VDict []),
      (''performance_metrics'', VDict [])]"

text \<open>\<^verbatim>\<open>ProductionEcosystem.execute_workflow\<close>.  The task is an object the caller shares
  with the orchestrator: the model returns it as the call leaves it, with the returned
  dict, the state of the orchestrator and the clock counter.  \<^verbatim>\<open>task.results\<close> and the
  returned dict are one object, so the task sees the later \<^verbatim>\<open>workflow_end\<close> entry too.\<close>

definition execute_workflow ::
  "ecosystem \<Rightarrow> world \<Rightarrow> research_task \<Rightarrow> ecosystem_state \<Rightarrow> nat \<Rightarrow>
     pydict \<times> research_task \<times> ecosystem_state \<times> nat" where
  "execute_workflow eco w task st n =
     (let workflow_start = clock w n;
          res0 = initial_results w task n
      in case workflow_try eco w task workflow_start res0 st (n + 2) of
           (res, n', Inr (task', st')) \<Rightarrow> (res, task', st', n')
         | (res, n', Inl e) \<Rightarrow>
             (dict_set (dict_set res ''error'' (VStr (str_e e))) ''workflow_success'' (VBool False),
              task, st, n'))"

section \<open>Notions of the specification\<close>

text \<open>The quantities the specification names in its formulas, written after its words, to
  be compared with what the code computes.\<close>

text \<open>The number of the three source types with at least one record, and the number of
  records across the non-empty source types.\<close>

definition source_types_present :: "research_bundle \<Rightarrow> nat" where
  "source_types_present b = length (filter (\<lambda>xs. xs \<noteq> []) [papers b, news b, github b])"

definition total_item_count :: "research_bundle \<Rightarrow> nat" where
  "total_item_count b =
     sum_list (map length (filter (\<lambda>xs. xs \<noteq> []) [papers b, news b, github b]))"

text \<open>A score stored under a key of a dict of metrics, and whether it lies in the closed
  unit interval.\<close>

definition unit_score :: "pydict \<Rightarrow> string \<Rightarrow> bool" where
  "unit_score m k = (case map_of m k of Some (VNum x) \<Rightarrow> 0 \<le> x \<and> x \<le> 1 | _ \<Rightarrow> False)"

text \<open>The summary field of a paper record.\<close>

definition summary_of :: "pydict \<Rightarrow> string" where
  "summary_of p = (case map_of p ''summary'' of Some (VStr s) \<Rightarrow> s | _ \<Rightarrow> [])"



definition carries_error :: "pydict \<Rightarrow> bool" where
  "carries_error r = (''error'' \<in> set (keys r))"




definition error_count :: "pydict \<Rightarrow> pydict \<Rightarrow> pydict \<Rightarrow> nat" where
  "error_count r a i = length (filter carries_error [r, a, i])"


text \<open>The health score as the environment stage reads it from its metrics,
  \<^verbatim>\<open>performance_data['health_score']\<close>.\<close>

definition health_score_of :: "world \<Rightarrow> pydict option \<Rightarrow> error + pyval" where
  "health_score_of w context =
     ebind (gather_system_metrics w context) (\<lambda>performance_data.
       dict_index performance_data ''health_score'')"


text \<open>The optimization score as the specification derives it from the data-quality score
  of the analysis stage.\<close>

definition optimization_formula :: "rat \<Rightarrow> rat" where
  "optimization_formula prior_data_quality = min (prior_data_quality + 1 / 10) 1"

text \<open>The result of a stage in the dict a workflow returns.\<close>

definition stage_result :: "pydict \<Rightarrow> string \<Rightarrow> pydict option" where
  "stage_result res name =
     (case map_of (stages_of res) name of Some (VDict r) \<Rightarrow> Some r | _ \<Rightarrow> None)"

definition stage_succeeded :: "pydict \<Rightarrow> string \<Rightarrow> bool" where
  "stage_succeeded res name =
     (case stage_result res name of Some r \<Rightarrow> \<not> carries_error r | None \<Rightarrow> False)"

definition stage_field :: "pydict \<Rightarrow> string \<Rightarrow> string \<Rightarrow> pyval" where
  "stage_field res name k =
     (case stage_result res name of Some r \<Rightarrow> dict_get r k VNone | None \<Rightarrow> VNone)"

text \<open>The four stage results of a run in the order of the stages, each stage run on the
  context built from the results before it; \<open>n\<close> is the clock counter at the start of the
  research stage.\<close>

definition pipeline_stages :: "ecosystem \<Rightarrow> world \<Rightarrow> research_task \<Rightarrow> nat \<Rightarrow> pydict" where
  "pipeline_stages eco w task n =
     (case research_process_task w (research_llm eco) task n of (r, n1) \<Rightarrow>
      case analysis_process_task w (analysis_llm eco) task (Some (analysis_context r)) n1 of
        (a, n2) \<Rightarrow>
      case innovation_process_task w (innovation_llm eco) task
             (Some (innovation_context r a)) n2 of (i, n3) \<Rightarrow>
      case environment_process_task w (environment_llm eco) task
             (Some (env_context r a i)) n3 of (e, n4) \<Rightarrow>
        [(''research'', VDict r), (''analysis'', VDict a),
         (''innovation'', VDict i), (''environment'', VDict e)])"

text \<open>The performance metrics of the dict a workflow returns.\<close>

definition performance_metrics_of :: "pydict \<Rightarrow> pydict" where
  "performance_metrics_of res =
     (case map_of res ''performance_metrics'' of Some (VDict m) \<Rightarrow> m | _ \<Rightarrow> [])"

text \<open>The exception, if any, that ends the \<^verbatim>\<open>try\<close> block of \<^verbatim>\<open>execute_workflow\<close>.\<close>

definition orchestration_error ::
  "ecosystem \<Rightarrow> world \<Rightarrow> research_task \<Rightarrow> ecosystem_state \<Rightarrow> nat \<Rightarrow> error option" where
  "orchestration_error eco w task st n =
     (case workflow_try eco w task (clock w n) (initial_results w task n) st (n + 2) of
        (res, n', Inl e) \<Rightarrow> Some e
      | (res, n', Inr ok) \<Rightarrow> None)"

text \<open>The number of the three prior stage results whose error field holds a true value,
  which is what the loop of \<^verbatim>\<open>_gather_system_metrics\<close> counts.\<close>

definition true_errors :: "pydict \<Rightarrow> pydict \<Rightarrow> pydict \<Rightarrow> nat" where
  "true_errors r a i = length (filter (\<lambda>s. truthy (dict_get s ''error'' VNone)) [r, a, i])"

section \<open>Example runs\<close>

text \<open>A world in which every source answers with nothing, the clock advances by one second
  per reading, output and database work, and \<^verbatim>\<open>round\<close> goes down next to a midpoint; a
  backend without credential.\<close>

definition quiet_world :: world where
  "quiet_world =
     \<lparr>clock = (\<lambda>n. of_nat n),
      iso_now = (\<lambda>n. ''2024-01-01T00:00:00''),
      arxiv_results = (\<lambda>query max_results. Inr []),
      feed_entries = (\<lambda>url. Inr []),
      github_get = (\<lambda>query per_page. Inr \<lparr>status_code = 200, json_body = Inr (VDict [(''items'', VList [])])\<rparr>),
      print_raises = (\<lambda>msg. None),
      db_insert_raises = (\<lambda>tid. None),
      round_up = (\<lambda>x. False)\<rparr>"

definition offline_llm :: gemini_llm where
  "offline_llm = \<lparr>has_api_key = False, generate_content = (\<lambda>p. Inl (RuntimeError ''no model''))\<rparr>"

definition plain_ecosystem :: ecosystem where
  "plain_ecosystem =
     \<lparr>research_llm = offline_llm, analysis_llm = offline_llm,
      innovation_llm = offline_llm, environment_llm = offline_llm\<rparr>"

definition empty_state :: ecosystem_state where
  "empty_state = \<lparr>completed_tasks = [], db_rows = []\<rparr>"

text \<open>A task created at clock counter 0 and run in the quiet world.\<close>

definition quantum_task :: research_task where
  "quantum_task =
     fst (create_task quiet_world ''Quantum error correction'' ''Survey of recent codes'' 0)"

definition quiet_run :: "pydict \<times> research_task \<times> ecosystem_state \<times> nat" where
  "quiet_run = execute_workflow plain_ecosystem quiet_world quantum_task empty_state 2"


text \<open>The same world with standard output closed.\<close>

definition closed_stdout_world :: world where
  "closed_stdout_world = quiet_world\<lparr>print_raises := (\<lambda>msg. Some (OSError ''Broken pipe''))\<rparr>"

text \<open>A world whose paper search returns one paper with a summary of 500 characters.\<close>

definition long_summary_world :: world where
  "long_summary_world =
     quiet_world\<lparr>arxiv_results := (\<lambda>query max_results.
        Inr [\<lparr>ar_title = ''Surface codes'', ar_authors = [''A. Author''],
              ar_summary = replicate 500 (CHR ''a''), ar_published = ''2024-01-01'',
              ar_entry_id = ''http://arxiv.org/abs/0000.00000'', ar_categories = [''quant-ph'']\<rparr>])\<rparr>"

text \<open>Three stage results of a run without errors whose elapsed times add up to 60.3
  seconds.\<close>

definition slow_research_result :: pydict where
  "slow_research_result =
     [(''agent_id'', VStr ''research_agent''), (''task_id'', VStr ''task_1''),
      (''research_data'', VStr ''findings''),
      (''raw_data_sources'', VDict [(''papers'', VList []), (''news'', VList []), (''github'', VList [])]),
      (''confidence_score'', VNum 0),
      (''timestamp'', VStr ''2024-01-01T00:00:00''),
      (''processing_time'', VNum (403 / 10)),
      (''data_sources_count'', VDict [(''papers'', VNum 0), (''news'', VNum 0), (''github'', VNum 0)])]"

definition slow_analysis_result :: pydict where
  "slow_analysis_result =
     [(''agent_id'', VStr ''analysis_agent''), (''task_id'', VStr ''task_1''),
      (''analysis_insights'', VStr ''insights''),
      (''data_quality_score'', VNum 0),
      (''timestamp'', VStr ''2024-01-01T00:00:41''),
      (''processing_time'', VNum 10)]"

definition slow_innovation_result :: pydict where
  "slow_innovation_result =
     [(''agent_id'', VStr ''innovation_agent''), (''task_id'', VStr ''task_1''),
      (''innovation_ideas'', VStr ''ideas''),
      (''breakthrough_potential'', VNum (85 / 100)),
      (''commercial_viability'', VNum (78 / 100)),
      (''timestamp'', VStr ''2024-01-01T00:00:51''),
      (''processing_time'', VNum 10)]"

text \<open>The same run with 40.5 seconds of research: 60.5 seconds in all, a health of
  0.995 before the rounding, the midpoint between 0.99 and 1.00.\<close>

definition midpoint_research_result :: pydict where
  "midpoint_research_result = dict_set slow_research_result ''processing_time'' (VNum (405 / 10))"

section \<open>Properties\<close>

subsection \<open>Sequencing and rounding\<close>

lemma ebind_Inr: "ebind m f = Inr y \<longleftrightarrow> (\<exists>x. m = Inr x \<and> f x = Inr y)"
  by (cases m) (simp_all add: ebind_def)

lemma ebind_Inl: "ebind m f = Inl e \<longleftrightarrow> (m = Inl e \<or> (\<exists>x. m = Inr x \<and> f x = Inl e))"
  by (cases m) (simp_all add: ebind_def)

lemma round2_cases:
  "(round2 w x = of_int \<lfloor>x * 100\<rfloor> / 100
      \<and> x * 100 - of_int \<lfloor>x * 100\<rfloor> \<le> 1 / 2 + tie_margin)
   \<or> (round2 w x = of_int (\<lfloor>x * 100\<rfloor> + 1) / 100
      \<and> 1 / 2 - tie_margin \<le> x * 100 - of_int \<lfloor>x * 100\<rfloor>)"
proof -
  define d where "d = x * 100 - of_int \<lfloor>x * 100\<rfloor>"
  have m: "0 < tie_margin" by (simp add: tie_margin_def)
  consider "d < 1 / 2 - tie_margin" | "1 / 2 + tie_margin < d"
    | "\<not> d < 1 / 2 - tie_margin" "\<not> 1 / 2 + tie_margin < d"
    by blast
  then show ?thesis
  proof cases
    case 1
    then have "round2 w x = of_int \<lfloor>x * 100\<rfloor> / 100"
      unfolding round2_def Let_def d_def by (simp only: if_True)
    with 1 m show ?thesis unfolding d_def by linarith
  next
    case 2
    with m have "\<not> d < 1 / 2 - tie_margin" by linarith
    with 2 have "round2 w x = of_int (\<lfloor>x * 100\<rfloor> + 1) / 100"
      unfolding round2_def Let_def d_def by (simp only: if_True if_False)
    with 2 m show ?thesis unfolding d_def by linarith
  next
    case 3
    then have "round2 w x =
        (if round_up w x then of_int (\<lfloor>x * 100\<rfloor> + 1) / 100 else of_int \<lfloor>x * 100\<rfloor> / 100)"
      unfolding round2_def Let_def d_def by (simp only: if_False)
    then have "round2 w x = of_int \<lfloor>x * 100\<rfloor> / 100
        \<or> round2 w x = of_int (\<lfloor>x * 100\<rfloor> + 1) / 100"
      by (cases "round_up w x") simp_all
    with 3 show ?thesis unfolding d_def by linarith
  qed
qed


lemma round2_range:
  assumes "0 \<le> x" "x \<le> 1"
  shows "0 \<le> round2 w x \<and> round2 w x \<le> 1"
proof -
  define f where "f = \<lfloor>x * 100\<rfloor>"
  have a: "0 \<le> x * 100" "x * 100 \<le> 100" using assms by simp_all
  have f0: "0 \<le> f" using a by (simp add: f_def)
  have f1: "f \<le> 100" using a by (simp add: f_def floor_le_iff)
  have m: "tie_margin < 1 / 2" by (simp add: tie_margin_def)
  have r: "0 \<le> of_int k / (100::rat) \<and> of_int k / (100::rat) \<le> 1" if "0 \<le> k" "k \<le> 100" for k :: int
    using that by simp
  from round2_cases [of w x] show ?thesis
  proof
    assume "round2 w x = of_int \<lfloor>x * 100\<rfloor> / 100
      \<and> x * 100 - of_int \<lfloor>x * 100\<rfloor> \<le> 1 / 2 + tie_margin"
    then have "round2 w x = of_int f / 100" by (simp add: f_def)
    with r [OF f0 f1] show ?thesis by (simp only:)
  next
    assume h: "round2 w x = of_int (\<lfloor>x * 100\<rfloor> + 1) / 100
      \<and> 1 / 2 - tie_margin \<le> x * 100 - of_int \<lfloor>x * 100\<rfloor>"
    with m have "of_int f < x * 100" unfolding f_def by linarith
    with a have "of_int f < (100::rat)" by linarith
    then have "f < 100" by linarith
    then have "0 \<le> f + 1" "f + 1 \<le> 100" using f0 by simp_all
    from r [OF this] h show ?thesis by (simp only: f_def)
  qed
qed


lemma round2_exact: "round2 w (9 / 10) = 9 / 10"
  by (simp add: round2_def Let_def tie_margin_def)

subsection \<open>Search terms\<close>




subsection \<open>Research confidence\<close>

text \<open>
  Claim C2.  For every gathered data bundle the confidence score of the research stage is
  min(0.25 * sourceTypesPresent, 0.75) + min(0.01 * totalItemCount, 0.25), clamped to 1,
  where sourceTypesPresent is the number of the three source types with at least one record
  and totalItemCount the number of records across the non-empty source types.
\<close>

theorem confidence_formula:
  "calculate_confidence b =
     min (min (25 / 100 * of_nat (source_types_present b)) (75 / 100)
          + min (1 / 100 * of_nat (total_item_count b)) (25 / 100)) 1"
  by (simp add: calculate_confidence_def source_types_present_def total_item_count_def Let_def
        mult.commute add.assoc)

lemma calculate_confidence_range:
  "0 \<le> calculate_confidence b \<and> calculate_confidence b \<le> 1"
  by (simp add: calculate_confidence_def Let_def min_def)

subsection \<open>The metrics of the environment stage\<close>

lemma env_context_lookup:
  "env_context r a i \<noteq> []"
  "dict_get (env_context r a i) ''research'' d = VDict r"
  "dict_get (env_context r a i) ''analysis'' d = VDict a"
  "dict_get (env_context r a i) ''innovation'' d = VDict i"
  "dict_get (env_context r a i) ''data_quality_score'' d = d"
  "dict_index (env_context r a i) ''research'' = Inr (VDict r)"
  by (simp_all add: env_context_def dict_get_def dict_index_def)

lemma error_count_of_env:
  "error_count_of (Some (env_context r a i)) = Inr (true_errors r a i)"
  by (simp add: error_count_of_def ebind_def true_errors_def env_context_lookup)

lemma source_hit_bound:
  "source_hit raw k n = Inr n' \<Longrightarrow> n \<le> n' \<and> n' \<le> n + 1"
  by (auto simp: source_hit_def ebind_Inr split: if_splits)

lemma api_successes_bound:
  assumes "api_successes_of context = Inr n"
  shows "n \<le> 3"
proof (cases "context")
  case None
  with assms show ?thesis by (simp add: api_successes_of_def)
next
  case (Some d)
  show ?thesis
  proof (cases "d = []")
    case True
    with assms Some show ?thesis by (simp add: api_successes_of_def)
  next
    case False
    with assms Some obtain present where
      p: "(if truthy present
           then ebind (dict_index d ''research'') (\<lambda>research.
                ebind (case research of
                         VDict r \<Rightarrow> dict_index r ''raw_data_sources''
                       | _ \<Rightarrow> Inl (TypeError ''object is not subscriptable'')) (\<lambda>raw_data.
                ebind (source_hit raw_data ''papers'' 0) (\<lambda>a1.
                ebind (source_hit raw_data ''news'' a1) (\<lambda>a2.
                source_hit raw_data ''github'' a2))))
           else Inr 0) = Inr n"
      by (auto simp: api_successes_of_def ebind_Inr)
    show ?thesis
    proof (cases "truthy present")
      case False
      with p show ?thesis by simp
    next
      case True
      with p obtain raw a1 a2 where
        "source_hit raw ''papers'' 0 = Inr a1" "source_hit raw ''news'' a1 = Inr a2"
        "source_hit raw ''github'' a2 = Inr n"
        by (auto simp: ebind_Inr)
      then show ?thesis
        using source_hit_bound [of raw "''papers''" 0 a1] source_hit_bound [of raw "''news''" a1 a2]
          source_hit_bound [of raw "''github''" a2 n] by linarith
    qed
  qed
qed

lemma gather_env_eq:
  "gather_system_metrics w (Some (env_context r a i)) =
     ebind (py_num (dict_get r ''processing_time'' (VNum 0))) (\<lambda>x1.
     ebind (py_num (dict_get a ''processing_time'' (VNum 0))) (\<lambda>x2.
     ebind (py_num (dict_get i ''processing_time'' (VNum 0))) (\<lambda>x3.
     ebind (api_successes_of (Some (env_context r a i))) (\<lambda>n.
       Inr [(''health_score'', VNum (round2 w (max
              ((if 60 < x1 + x2 + x3 then 1 - (x1 + x2 + x3 - 60) * (1 / 100) else 1)
                 - of_nat (true_errors r a i) * (1 / 10)) (1 / 2)))),
            (''optimization_score'', VNum (round2 w (9 / 10))),
            (''response_times'',
               VDict [(''research'', dict_get r ''processing_time'' (VNum 0)),
                      (''analysis'', dict_get a ''processing_time'' (VNum 0)),
                      (''innovation'', dict_get i ''processing_time'' (VNum 0))]),
            (''data_quality'', VNum (8 / 10)),
            (''api_success_rate'', VNum (round2 w (of_nat n / 3))),
            (''resource_utilization'', VNum (round2 w
               (min (45 / (if 0 < x1 + x2 + x3 then x1 + x2 + x3 else 45)) 1))),
            (''total_processing_time'', VNum (x1 + x2 + x3)),
            (''error_count'', VNum (of_nat (true_errors r a i)))]))))"
  unfolding gather_system_metrics_def stage_get_def ctx_get_def
  by (simp add: ebind_def error_count_of_env env_context_lookup Let_def split: sum.splits)

lemma gather_env_shape:
  assumes "gather_system_metrics w (Some (env_context r a i)) = Inr m"
  shows "\<exists>x1 x2 x3 n.
      py_num (dict_get r ''processing_time'' (VNum 0)) = Inr x1
    \<and> py_num (dict_get a ''processing_time'' (VNum 0)) = Inr x2
    \<and> py_num (dict_get i ''processing_time'' (VNum 0)) = Inr x3
    \<and> n \<le> 3
    \<and> map_of m ''health_score'' = Some (VNum (round2 w (max
          ((if 60 < x1 + x2 + x3 then 1 - (x1 + x2 + x3 - 60) * (1 / 100) else 1)
             - of_nat (true_errors r a i) * (1 / 10)) (1 / 2))))
    \<and> map_of m ''optimization_score'' = Some (VNum (round2 w (9 / 10)))
    \<and> map_of m ''api_success_rate'' = Some (VNum (round2 w (of_nat n / 3)))
    \<and> map_of m ''resource_utilization'' = Some (VNum (round2 w
          (min (45 / (if 0 < x1 + x2 + x3 then x1 + x2 + x3 else 45)) 1)))"
proof -
  from assms [unfolded gather_env_eq ebind_Inr] obtain x1 x2 x3 n where
    x: "py_num (dict_get r ''processing_time'' (VNum 0)) = Inr x1"
       "py_num (dict_get a ''processing_time'' (VNum 0)) = Inr x2"
       "py_num (dict_get i ''processing_time'' (VNum 0)) = Inr x3" and
    n: "api_successes_of (Some (env_context r a i)) = Inr n" and
    m: "Inr [(''health_score'', VNum (round2 w (max
              ((if 60 < x1 + x2 + x3 then 1 - (x1 + x2 + x3 - 60) * (1 / 100) else 1)
                 - of_nat (true_errors r a i) * (1 / 10)) (1 / 2)))),
            (''optimization_score'', VNum (round2 w (9 / 10))),
            (''response_times'',
               VDict [(''research'', dict_get r ''processing_time'' (VNum 0)),
                      (''analysis'', dict_get a ''processing_time'' (VNum 0)),
                      (''innovation'', dict_get i ''processing_time'' (VNum 0))]),
            (''data_quality'', VNum (8 / 10)),
            (''api_success_rate'', VNum (round2 w (of_nat n / 3))),
            (''resource_utilization'', VNum (round2 w
               (min (45 / (if 0 < x1 + x2 + x3 then x1 + x2 + x3 else 45)) 1))),
            (''total_processing_time'', VNum (x1 + x2 + x3)),
            (''error_count'', VNum (of_nat (true_errors r a i)))] = (Inr m :: error + pydict)"
    by blast
  have "n \<le> 3" using api_successes_bound [OF n] .
  moreover from m have "map_of m ''health_score'' = Some (VNum (round2 w (max
          ((if 60 < x1 + x2 + x3 then 1 - (x1 + x2 + x3 - 60) * (1 / 100) else 1)
             - of_nat (true_errors r a i) * (1 / 10)) (1 / 2))))"
    "map_of m ''optimization_score'' = Some (VNum (round2 w (9 / 10)))"
    "map_of m ''api_success_rate'' = Some (VNum (round2 w (of_nat n / 3)))"
    "map_of m ''resource_utilization'' = Some (VNum (round2 w
          (min (45 / (if 0 < x1 + x2 + x3 then x1 + x2 + x3 else 45)) 1)))"
    by auto
  ultimately show ?thesis using x by blast
qed

lemma gather_env_scores:
  assumes "gather_system_metrics w (Some (env_context r a i)) = Inr m"
  shows "unit_score m ''health_score'' \<and> unit_score m ''optimization_score''
       \<and> unit_score m ''resource_utilization'' \<and> unit_score m ''api_success_rate''"
proof -
  from gather_env_shape [OF assms] obtain x1 x2 x3 n where
    n: "(n::nat) \<le> 3" and
    h: "map_of m ''health_score'' = Some (VNum (round2 w (max
          ((if 60 < x1 + x2 + x3 then 1 - (x1 + x2 + x3 - 60) * (1 / 100) else 1)
             - of_nat (true_errors r a i) * (1 / 10)) (1 / 2))))" and
    opt: "map_of m ''optimization_score'' = Some (VNum (round2 w (9 / 10)))" and
    api: "map_of m ''api_success_rate'' = Some (VNum (round2 w (of_nat n / 3)))" and
    ru: "map_of m ''resource_utilization'' = Some (VNum (round2 w
          (min (45 / (if 0 < x1 + x2 + x3 then x1 + x2 + x3 else 45)) 1)))"
    by blast
  define hs where "hs = max
          ((if 60 < x1 + x2 + x3 then 1 - (x1 + x2 + x3 - 60) * (1 / 100) else 1)
             - of_nat (true_errors r a i) * (1 / 10)) (1 / 2)"
  have "0 \<le> hs" by (simp add: hs_def)
  moreover have "hs \<le> 1"
  proof -
    have "0 \<le> (of_nat (true_errors r a i) :: rat) * (1 / 10)" by simp
    moreover have "(if 60 < x1 + x2 + x3 then 1 - (x1 + x2 + x3 - 60) * (1 / 100) else 1) \<le> (1::rat)"
    proof (cases "60 < x1 + x2 + x3")
      case True
      then have "0 \<le> (x1 + x2 + x3 - 60) * (1 / 100)" by simp
      with True show ?thesis by simp
    next
      case False
      then show ?thesis by simp
    qed
    ultimately show ?thesis unfolding hs_def by linarith
  qed
  ultimately have 1: "unit_score m ''health_score''"
    using h round2_range [of hs] by (simp add: unit_score_def hs_def)
  have 2: "unit_score m ''optimization_score''"
    using opt round2_range [of "9 / 10"] by (simp add: unit_score_def)
  define t where "t = (if 0 < x1 + x2 + x3 then x1 + x2 + x3 else 45)"
  have "0 < t" by (simp add: t_def)
  then have "0 \<le> min (45 / t) 1" by simp
  then have 3: "unit_score m ''resource_utilization''"
    using ru round2_range [of "min (45 / t) 1"] by (simp add: unit_score_def t_def)
  have "of_nat n / 3 \<le> (1::rat)" using n by simp
  then have 4: "unit_score m ''api_success_rate''"
    using api round2_range [of "of_nat n / 3"] by (simp add: unit_score_def)
  from 1 2 3 4 show ?thesis by simp
qed

lemma research_result_shape:
  "(\<exists>e ts. fst (research_process_task w llm task n) =
              error_result ''research_agent'' (task_id task) e ts)
   \<or> (\<exists>an b ts pt. fst (research_process_task w llm task n) =
         [(''agent_id'', VStr ''research_agent''),
          (''task_id'', VStr (task_id task)),
          (''research_data'', VStr an),
          (''raw_data_sources'', bundle_val b),
          (''confidence_score'', VNum (calculate_confidence b)),
          (''timestamp'', VStr ts),
          (''processing_time'', VNum pt),
          (''data_sources_count'',
             VDict [(''papers'', VNum (of_nat (length (papers b)))),
                    (''news'', VNum (of_nat (length (news b)))),
                    (''github'', VNum (of_nat (length (github b))))])])"
  by (cases "gather_research_data w (title task) (description task)")
     (auto simp: research_process_task_def research_body_def ebind_def Let_def)

lemma analysis_result_shape:
  "(\<exists>e ts. fst (analysis_process_task w llm task ctx n) =
              error_result ''analysis_agent'' (task_id task) e ts)
   \<or> (\<exists>an raw q ts pt. assess_data_quality raw = Inr q \<and>
         fst (analysis_process_task w llm task ctx n) =
         [(''agent_id'', VStr ''analysis_agent''),
          (''task_id'', VStr (task_id task)),
          (''analysis_insights'', VStr an),
          (''data_quality_score'', VNum q),
          (''timestamp'', VStr ts),
          (''processing_time'', VNum pt)])"
proof (cases "analysis_body w llm task ctx (clock w n) (n + 1)")
  case (Inl e)
  then show ?thesis by (auto simp: analysis_process_task_def Let_def)
next
  case (Inr p)
  from Inr [unfolded analysis_body_def Let_def ebind_Inr] obtain raw q an ts pt k where
    "assess_data_quality raw = Inr q"
    "p = ([(''agent_id'', VStr ''analysis_agent''),
           (''task_id'', VStr (task_id task)),
           (''analysis_insights'', VStr an),
           (''data_quality_score'', VNum q),
           (''timestamp'', VStr ts),
           (''processing_time'', VNum pt)], k)"
    by auto
  with Inr show ?thesis
    by (intro disjI2) (auto simp: analysis_process_task_def Let_def)
qed

lemma innovation_result_shape:
  "\<exists>an ts pt. fst (innovation_process_task w llm task ctx n) =
         [(''agent_id'', VStr ''innovation_agent''),
          (''task_id'', VStr (task_id task)),
          (''innovation_ideas'', VStr an),
          (''breakthrough_potential'', VNum (85 / 100)),
          (''commercial_viability'', VNum (78 / 100)),
          (''timestamp'', VStr ts),
          (''processing_time'', VNum pt)]"
  by (simp add: innovation_process_task_def innovation_body_def Let_def)

subsection \<open>Data quality\<close>

lemma quality_share_range:
  assumes "quality_share xs wt cap q = Inr q'" "0 \<le> cap" "0 \<le> wt"
  shows "q \<le> q' \<and> q' \<le> q + cap"
  using assms
  by (cases "py_len xs") (auto simp: quality_share_def ebind_def min_def split: if_splits)

lemma assess_data_quality_range:
  assumes "assess_data_quality raw = Inr q"
  shows "0 \<le> q \<and> q \<le> 1"
proof -
  from assms obtain q1 q2 q3 ps ns gs where
    s1: "quality_share ps (1 / 10) (4 / 10) 0 = Inr q1" and
    s2: "quality_share ns (5 / 100) (3 / 10) q1 = Inr q2" and
    s3: "quality_share gs (3 / 100) (3 / 10) q2 = Inr q3" and
    q: "q = min q3 1"
    unfolding assess_data_quality_def ebind_Inr by auto
  from quality_share_range [OF s1] quality_share_range [OF s2] quality_share_range [OF s3]
  have "0 \<le> q3" by simp
  with q show ?thesis by simp
qed

subsection \<open>The stage results of a run\<close>

lemma error_result_lookup:
  "map_of (error_result ag tid e ts) ''processing_time'' = None"
  "map_of (error_result ag tid e ts) ''raw_data_sources'' = None"
  "map_of (error_result ag tid e ts) ''error'' = Some (VStr (str_e e))"
  "keys (error_result ag tid e ts) = [''agent_id'', ''task_id'', ''error'', ''timestamp'']"
  by (simp_all add: error_result_def keys_def)

lemma research_time_numeric:
  "\<exists>x. py_num (dict_get (fst (research_process_task w llm task n)) ''processing_time'' (VNum 0)) = Inr x"
  using research_result_shape [of w llm task n]
  by (auto simp: error_result_lookup dict_get_def)

lemma analysis_time_numeric:
  "\<exists>x. py_num (dict_get (fst (analysis_process_task w llm task ctx n)) ''processing_time'' (VNum 0)) = Inr x"
  using analysis_result_shape [of w llm task ctx n]
  by (auto simp: error_result_lookup dict_get_def)

lemma innovation_time_numeric:
  "\<exists>x. py_num (dict_get (fst (innovation_process_task w llm task ctx n)) ''processing_time'' (VNum 0)) = Inr x"
  using innovation_result_shape [of w llm task ctx n]
  by (auto simp: dict_get_def)

lemma source_hit_bundle:
  "\<exists>n'. source_hit (bundle_val b) k n = Inr n'"
  by (simp add: source_hit_def bundle_val_def ebind_def)

lemma api_successes_env:
  "api_successes_of (Some (env_context r a i)) =
     (if truthy (dict_get r ''raw_data_sources'' VNone)
      then ebind (dict_index r ''raw_data_sources'') (\<lambda>raw_data.
           ebind (source_hit raw_data ''papers'' 0) (\<lambda>a1.
           ebind (source_hit raw_data ''news'' a1) (\<lambda>a2.
           source_hit raw_data ''github'' a2)))
      else Inr 0)"
  by (simp add: api_successes_of_def env_context_lookup ebind_def)

lemma api_successes_research:
  "\<exists>k. api_successes_of
          (Some (env_context (fst (research_process_task w llm task n)) a i)) = Inr k"
proof -
  consider (err) e ts where
      "fst (research_process_task w llm task n) =
         error_result ''research_agent'' (task_id task) e ts"
    | (ok) b where
      "map_of (fst (research_process_task w llm task n)) ''raw_data_sources'' = Some (bundle_val b)"
    using research_result_shape [of w llm task n] by auto
  then show ?thesis
  proof cases
    case err
    then show ?thesis
      by (simp add: api_successes_env error_result_lookup dict_get_def)
  next
    case ok
    obtain a1 where a1: "source_hit (bundle_val b) ''papers'' 0 = Inr a1"
      using source_hit_bundle by blast
    obtain a2 where a2: "source_hit (bundle_val b) ''news'' a1 = Inr a2"
      using source_hit_bundle by blast
    obtain a3 where a3: "source_hit (bundle_val b) ''github'' a2 = Inr a3"
      using source_hit_bundle by blast
    have "truthy (bundle_val b)" by (simp add: bundle_val_def)
    with ok a1 a2 a3 show ?thesis
      by (simp add: api_successes_env ebind_def dict_get_def dict_index_def)
  qed
qed

lemma pipeline_metrics_defined:
  "\<exists>m. gather_system_metrics w
         (Some (env_context (fst (research_process_task w l1 task n1))
                            (fst (analysis_process_task w l2 task c2 n2))
                            (fst (innovation_process_task w l3 task c3 n3)))) = Inr m"
proof -
  obtain x1 x2 x3 k where
    "py_num (dict_get (fst (research_process_task w l1 task n1)) ''processing_time'' (VNum 0)) = Inr x1"
    "py_num (dict_get (fst (analysis_process_task w l2 task c2 n2)) ''processing_time'' (VNum 0)) = Inr x2"
    "py_num (dict_get (fst (innovation_process_task w l3 task c3 n3)) ''processing_time'' (VNum 0)) = Inr x3"
    "api_successes_of
       (Some (env_context (fst (research_process_task w l1 task n1))
                          (fst (analysis_process_task w l2 task c2 n2))
                          (fst (innovation_process_task w l3 task c3 n3)))) = Inr k"
    using research_time_numeric analysis_time_numeric innovation_time_numeric api_successes_research
    by metis
  then show ?thesis
    by (simp add: gather_env_eq ebind_def)
qed

lemma research_confidence_score:
  "carries_error (fst (research_process_task w llm task n))
   \<or> unit_score (fst (research_process_task w llm task n)) ''confidence_score''"
  using research_result_shape [of w llm task n] calculate_confidence_range
  by (auto simp: carries_error_def error_result_lookup unit_score_def)

lemma analysis_quality_score:
  "carries_error (fst (analysis_process_task w llm task ctx n))
   \<or> unit_score (fst (analysis_process_task w llm task ctx n)) ''data_quality_score''"
  using analysis_result_shape [of w llm task ctx n] assess_data_quality_range
  by (auto simp: carries_error_def error_result_lookup unit_score_def)

text \<open>
  Claim C1.  In every execution each of the six heuristic scores lies in the closed
  interval from 0 to 1: the confidence score of a research result and the data-quality
  score of an analysis result, whenever the stage did not end in its error branch, and the
  health, optimization, resource-utilization and API-success-rate scores that the
  environment stage computes from the three prior stage results, which it always does
  compute.
\<close>

theorem heuristic_scores_in_unit_interval:
  "(carries_error (fst (research_process_task w l1 task n1))
      \<or> unit_score (fst (research_process_task w l1 task n1)) ''confidence_score'')
   \<and> (carries_error (fst (analysis_process_task w l2 task c2 n2))
      \<or> unit_score (fst (analysis_process_task w l2 task c2 n2)) ''data_quality_score'')
   \<and> (\<exists>m. gather_system_metrics w
         (Some (env_context (fst (research_process_task w l1 task n1))
                            (fst (analysis_process_task w l2 task c2 n2))
                            (fst (innovation_process_task w l3 task c3 n3)))) = Inr m
        \<and> unit_score m ''health_score'' \<and> unit_score m ''optimization_score''
        \<and> unit_score m ''resource_utilization'' \<and> unit_score m ''api_success_rate'')"
  using research_confidence_score analysis_quality_score pipeline_metrics_defined gather_env_scores
  by meson

subsection \<open>System health\<close>





text \<open>At the midpoint the world decides: with 40.5, 10 and 10 seconds and no error the
  formula gives 0.995, and the health score is 0.99 where the float unit rounds down there
  (as it does for the binary float 0.99499999999999999556) and 1.0 where it rounds up.\<close>

lemma midpoint_health:
  "health_score_of w
     (Some (env_context midpoint_research_result slow_analysis_result slow_innovation_result))
     = Inr (VNum (if round_up w (199 / 200) then 1 else 99 / 100))"
proof -
  have f: "\<lfloor>(199::rat) / 2\<rfloor> = 99" by (simp add: floor_eq_iff)
  have r: "round2 w (199 / 200) = (if round_up w (199 / 200) then 1 else 99 / 100)"
    by (simp add: round2_def Let_def tie_margin_def f)
  have t: "py_num (dict_get midpoint_research_result ''processing_time'' (VNum 0)) = Inr (405 / 10)"
    "py_num (dict_get slow_analysis_result ''processing_time'' (VNum 0)) = Inr 10"
    "py_num (dict_get slow_innovation_result ''processing_time'' (VNum 0)) = Inr 10"
    by code_simp+
  have e: "true_errors midpoint_research_result slow_analysis_result slow_innovation_result = 0"
    by code_simp
  have a: "api_successes_of
      (Some (env_context midpoint_research_result slow_analysis_result slow_innovation_result)) = Inr 0"
    by code_simp
  show ?thesis
    by (simp add: health_score_of_def gather_env_eq t e a ebind_def dict_index_def r)
qed

subsection \<open>Optimization score\<close>

text \<open>The context of the environment stage has the keys research, analysis and
  innovation only, so the lookup of \<^verbatim>\<open>data_quality_score\<close> in it always yields the default
  0.8 and the optimization score is 0.9 in every run.\<close>

lemma optimization_score_constant:
  assumes "gather_system_metrics w (Some (env_context r a i)) = Inr m"
  shows "map_of m ''optimization_score'' = Some (VNum (9 / 10))"
proof -
  have "round2 w (9 / 10) = 9 / 10" by (rule round2_exact)
  with gather_env_shape [OF assms] show ?thesis by auto
qed

text \<open>
  Claim C9 says that the optimization score of the environment stage is
  min(priorDataQuality + 0.1, 1.0) for the data-quality score of the analysis stage of the
  same execution.  The code does not do that: in the run of the quiet world the analysis
  stage reports a data quality of 0, for which the formula gives 0.1, and the environment
  stage reports an optimization potential of 0.9.
\<close>

theorem optimization_ignores_data_quality:
  "stage_field (fst quiet_run) ''analysis'' ''data_quality_score'' = VNum 0
   \<and> optimization_formula 0 = 1 / 10
   \<and> stage_field (fst quiet_run) ''environment'' ''optimization_potential'' = VNum (9 / 10)"
  by code_simp

subsection \<open>Gathering\<close>

lemma gather_raises_iff:
  "gather_research_data w ttl descr = Inl e \<longleftrightarrow>
     extract_search_terms ttl descr = [] \<and> e = IndexError ''list index out of range''"
  by (cases "extract_search_terms ttl descr")
     (auto simp: gather_research_data_def first_term_def ebind_def Let_def)

lemma gather_returns_when_terms:
  assumes "extract_search_terms ttl descr = t # ts"
  shows "gather_research_data w ttl descr =
           Inr \<lparr>papers = concat (map (\<lambda>term. search_arxiv_papers w term 5) (t # ts)),
                news = search_news w t 14,
                github = search_github_repos w t 8\<rparr>"
  using assms by (simp add: gather_research_data_def first_term_def ebind_def Let_def)

lemma gather_nothing_found:
  assumes "extract_search_terms ttl descr \<noteq> []"
    and "\<And>q k. search_arxiv_papers w q k = []" "\<And>q k. search_news w q k = []"
    and "\<And>q k. search_github_repos w q k = []"
  shows "gather_research_data w ttl descr = Inr \<lparr>papers = [], news = [], github = []\<rparr>
       \<and> calculate_confidence \<lparr>papers = [], news = [], github = []\<rparr> = 0"
proof -
  from assms(1) obtain t ts where "extract_search_terms ttl descr = t # ts"
    by (cases "extract_search_terms ttl descr") auto
  from gather_returns_when_terms [OF this] assms(2-4) show ?thesis
    by (simp add: calculate_confidence_def)
qed

text \<open>
  Claim C3 says that gathering never raises, whatever title and description are.  The
  code does raise: for the title "5G" and the description "Network rollout" no rule
  matches and no word of the title is longer than three characters, so the list of search
  terms is empty and \<^verbatim>\<open>search_terms[0]\<close> raises IndexError, in every world.  Whenever
  the list of terms is not empty the claim holds (\<open>gather_returns_when_terms\<close>,
  \<open>gather_nothing_found\<close>).
\<close>

theorem gather_raises_on_short_title:
  "extract_search_terms ''5G'' ''Network rollout'' = []
   \<and> gather_research_data w ''5G'' ''Network rollout'' = Inl (IndexError ''list index out of range'')"
proof -
  have "extract_search_terms ''5G'' ''Network rollout'' = []" by code_simp
  then show ?thesis using gather_raises_iff [of w "''5G''" "''Network rollout''"] by simp
qed

subsection \<open>Paper summaries\<close>

lemma summary_of_paper: "summary_of (paper_of r) = take 500 (ar_summary r) @ ''...''"
  by (simp add: summary_of_def paper_of_def)

text \<open>
  Claim C4, as amended.  For every paper record returned by the paper search, the summary
  field is the first 500 characters of the summary of a fetched paper (the whole of it when
  it is shorter) followed by the ellipsis marker "...", so it is at most 503 characters
  long.
\<close>

theorem paper_summary_truncated:
  "\<forall>p \<in> set (search_arxiv_papers w query max_results).
      length (summary_of p) \<le> 503
    \<and> (\<exists>r \<in> set (case arxiv_results w query max_results of Inr rs \<Rightarrow> rs | Inl e \<Rightarrow> []).
          summary_of p = take 500 (ar_summary r) @ ''...'')"
  by (cases "arxiv_results w query max_results")
     (auto simp: search_arxiv_papers_def summary_of_paper)

theorem paper_summary_truncated_witness:
  "length (search_arxiv_papers long_summary_world ''surface codes'' 5) = 1
   \<and> length (summary_of (search_arxiv_papers long_summary_world ''surface codes'' 5 ! 0)) \<le> 503"
proof -
  have l: "length (search_arxiv_papers long_summary_world ''surface codes'' 5) = 1"
    by (simp add: search_arxiv_papers_def long_summary_world_def quiet_world_def)
  then have "search_arxiv_papers long_summary_world ''surface codes'' 5 ! 0
        \<in> set (search_arxiv_papers long_summary_world ''surface codes'' 5)"
    by simp
  with paper_summary_truncated [of long_summary_world "''surface codes''" 5] l
  show ?thesis by blast
qed

text \<open>
  Claim C4 as first stated, with its bound of 500 characters, fails: a summary of 500
  characters comes back with 503.
\<close>

theorem paper_summary_longer_than_500:
  "length (summary_of (search_arxiv_papers long_summary_world ''surface codes'' 5 ! 0)) = 503
   \<and> \<not> length (summary_of (search_arxiv_papers long_summary_world ''surface codes'' 5 ! 0)) \<le> 500"
  by (simp add: search_arxiv_papers_def long_summary_world_def quiet_world_def summary_of_paper)

subsection \<open>Error results\<close>







text \<open>The \<^verbatim>\<open>try\<close> block of the innovation agent has no statement that raises: its only
  call, \<^verbatim>\<open>generate_response\<close>, catches its own exceptions.\<close>

lemma innovation_body_returns:
  "\<exists>p. innovation_body w llm task ctx start_time n = Inr p"
  by (simp add: innovation_body_def Let_def)



subsection \<open>The workflow\<close>

lemma map_of_dict_set:
  "map_of (dict_set d k v) k' = (if k' = k then Some v else map_of d k')"
  by (simp add: dict_set_def update_conv')

lemma stages_of_set_stage:
  "stages_of (set_stage res name r) = dict_set (stages_of res) name (VDict r)"
  by (simp add: stages_of_def set_stage_def dict_get_def map_of_dict_set)

lemma map_of_set_stage:
  "k \<noteq> ''stages'' \<Longrightarrow> map_of (set_stage res name r) k = map_of res k"
  by (simp add: set_stage_def map_of_dict_set)

lemma stages_of_dict_set:
  "k \<noteq> ''stages'' \<Longrightarrow> stages_of (dict_set res k v) = stages_of res"
  by (simp add: stages_of_def dict_get_def map_of_dict_set)

lemma initial_results_lookup:
  "stages_of (initial_results w task n) = []"
  "map_of (initial_results w task n) ''performance_metrics'' = Some (VDict [])"
  by (simp_all add: initial_results_def stages_of_def dict_get_def)

lemma four_stages:
  "dict_set (dict_set (dict_set (dict_set [] ''research'' r) ''analysis'' a) ''innovation'' i)
     ''environment'' e =
   [(''research'', r), (''analysis'', a), (''innovation'', i), (''environment'', e)]"
  by (simp add: dict_set_def)

lemma workflow_try_raises:
  assumes "workflow_try eco w task ws (initial_results w task n) st n0 = (res, n', Inl e)"
  shows "map_of res ''performance_metrics'' = Some (VDict [])
       \<and> map_of (stages_of res) ''environment'' = None"
  using assms unfolding workflow_try_def Let_def
  by (auto split: option.splits prod.splits
        simp: map_of_set_stage stages_of_set_stage initial_results_lookup map_of_dict_set)

lemma workflow_try_returns:
  assumes "workflow_try eco w task ws (initial_results w task n) st n0 = (res, n', Inr (task', st'))"
  shows "stages_of res = pipeline_stages eco w task n0
       \<and> map_of (performance_metrics_of res) ''workflow_success'' = Some (VBool True)
       \<and> task' = task\<lparr>status := ''completed'', results := res\<rparr>
       \<and> completed_tasks st' = completed_tasks st @ [task']"
  using assms unfolding workflow_try_def Let_def pipeline_stages_def
  by (auto split: option.splits prod.splits
        simp: map_of_set_stage stages_of_set_stage initial_results_lookup map_of_dict_set
          stages_of_dict_set performance_metrics_of_def four_stages)

lemma keys_pipeline_stages:
  "keys (pipeline_stages eco w task n) = [''research'', ''analysis'', ''innovation'', ''environment'']"
  by (simp add: pipeline_stages_def keys_def split: prod.splits)

lemma execute_workflow_raised:
  assumes "workflow_try eco w task (clock w n) (initial_results w task n) st (n + 2) = (res, n', Inl e)"
  shows "execute_workflow eco w task st n =
           (dict_set (dict_set res ''error'' (VStr (str_e e))) ''workflow_success'' (VBool False),
            task, st, n')"
  using assms by (simp add: execute_workflow_def Let_def)

lemma execute_workflow_returned:
  assumes "workflow_try eco w task (clock w n) (initial_results w task n) st (n + 2)
             = (res, n', Inr (task', st'))"
  shows "execute_workflow eco w task st n = (res, task', st', n')"
  using assms by (simp add: execute_workflow_def Let_def)

text \<open>
  Claim C7.  For every task, a workflow execution in which all four stage agents succeed
  returns a dict whose performance metrics have the flag workflow_success set to true and
  whose mapping of stages has exactly the keys research, analysis, innovation and
  environment, inserted in this order, each with the result of its agent run on the context
  built from the results of the stages before it.
\<close>

theorem workflow_success_stages:
  assumes "stage_succeeded (fst (execute_workflow eco w task st n)) ''research''"
    and "stage_succeeded (fst (execute_workflow eco w task st n)) ''analysis''"
    and "stage_succeeded (fst (execute_workflow eco w task st n)) ''innovation''"
    and "stage_succeeded (fst (execute_workflow eco w task st n)) ''environment''"
  shows "map_of (performance_metrics_of (fst (execute_workflow eco w task st n))) ''workflow_success''
           = Some (VBool True)
       \<and> keys (stages_of (fst (execute_workflow eco w task st n)))
           = [''research'', ''analysis'', ''innovation'', ''environment'']
       \<and> stages_of (fst (execute_workflow eco w task st n)) = pipeline_stages eco w task (n + 2)"
proof -
  obtain res n' out where
    t: "workflow_try eco w task (clock w n) (initial_results w task n) st (n + 2) = (res, n', out)"
    by (metis prod_cases3)
  show ?thesis
  proof (cases out)
    case (Inl e)
    from t Inl have "map_of (stages_of res) ''environment'' = None"
      using workflow_try_raises by blast
    moreover from t Inl have "fst (execute_workflow eco w task st n) =
        dict_set (dict_set res ''error'' (VStr (str_e e))) ''workflow_success'' (VBool False)"
      using execute_workflow_raised by simp
    ultimately have "\<not> stage_succeeded (fst (execute_workflow eco w task st n)) ''environment''"
      by (simp add: stage_succeeded_def stage_result_def stages_of_dict_set)
    with assms(4) show ?thesis by simp
  next
    case (Inr ok)
    obtain task' st' where ok: "ok = (task', st')" by (cases ok)
    from t Inr ok have "fst (execute_workflow eco w task st n) = res"
      using execute_workflow_returned by simp
    moreover from t Inr ok have "stages_of res = pipeline_stages eco w task (n + 2)"
      "map_of (performance_metrics_of res) ''workflow_success'' = Some (VBool True)"
      using workflow_try_returns by blast+
    ultimately show ?thesis by (simp add: keys_pipeline_stages)
  qed
qed

theorem workflow_success_stages_witness:
  "stage_succeeded (fst quiet_run) ''research'' \<and> stage_succeeded (fst quiet_run) ''analysis''
   \<and> stage_succeeded (fst quiet_run) ''innovation'' \<and> stage_succeeded (fst quiet_run) ''environment''
   \<and> map_of (performance_metrics_of (fst quiet_run)) ''workflow_success'' = Some (VBool True)
   \<and> keys (stages_of (fst quiet_run)) = [''research'', ''analysis'', ''innovation'', ''environment'']"
proof -
  have s: "stage_succeeded (fst quiet_run) ''research''" "stage_succeeded (fst quiet_run) ''analysis''"
    "stage_succeeded (fst quiet_run) ''innovation''" "stage_succeeded (fst quiet_run) ''environment''"
    by code_simp+
  have "map_of (performance_metrics_of (fst quiet_run)) ''workflow_success'' = Some (VBool True)
      \<and> keys (stages_of (fst quiet_run)) = [''research'', ''analysis'', ''innovation'', ''environment'']
      \<and> stages_of (fst quiet_run) = pipeline_stages plain_ecosystem quiet_world quantum_task (2 + 2)"
    unfolding quiet_run_def by (rule workflow_success_stages [OF s [unfolded quiet_run_def]])
  with s show ?thesis by blast
qed

text \<open>
  Claim C10.  If the \<^verbatim>\<open>try\<close> block of a workflow execution is ended by an exception,
  the call still returns a dict, with a top-level workflow_success of false, the message of
  the exception as error and the empty dict as performance_metrics; the task passed in is
  as it was (for a task fresh from \<^verbatim>\<open>create_task\<close>: status "pending", results empty), the
  list of completed tasks and the rows of the database are as they were.
\<close>

theorem orchestration_failure_leaves_task:
  assumes "orchestration_error eco w task st n = Some e"
  shows "map_of (fst (execute_workflow eco w task st n)) ''workflow_success'' = Some (VBool False)
       \<and> map_of (fst (execute_workflow eco w task st n)) ''error'' = Some (VStr (str_e e))
       \<and> map_of (fst (execute_workflow eco w task st n)) ''performance_metrics'' = Some (VDict [])
       \<and> fst (snd (execute_workflow eco w task st n)) = task
       \<and> fst (snd (snd (execute_workflow eco w task st n))) = st
       \<and> status (fst (create_task w ttl descr k)) = ''pending''
       \<and> results (fst (create_task w ttl descr k)) = []"
proof -
  from assms obtain res n' where
    t: "workflow_try eco w task (clock w n) (initial_results w task n) st (n + 2) = (res, n', Inl e)"
    by (auto simp: orchestration_error_def split: prod.splits sum.splits)
  from workflow_try_raises [OF t] have "map_of res ''performance_metrics'' = Some (VDict [])"
    by simp
  with execute_workflow_raised [OF t] show ?thesis
    by (simp add: map_of_dict_set create_task_def)
qed

theorem orchestration_failure_leaves_task_witness:
  "orchestration_error plain_ecosystem closed_stdout_world quantum_task empty_state 2
     = Some (OSError ''Broken pipe'')
   \<and> status quantum_task = ''pending'' \<and> results quantum_task = []
   \<and> map_of (fst (execute_workflow plain_ecosystem closed_stdout_world quantum_task empty_state 2))
        ''workflow_success'' = Some (VBool False)
   \<and> fst (snd (execute_workflow plain_ecosystem closed_stdout_world quantum_task empty_state 2))
        = quantum_task
   \<and> fst (snd (snd (execute_workflow plain_ecosystem closed_stdout_world quantum_task empty_state 2)))
        = empty_state"
proof -
  have o: "orchestration_error plain_ecosystem closed_stdout_world quantum_task empty_state 2
     = Some (OSError ''Broken pipe'')"
    by code_simp
  have p: "status quantum_task = ''pending''" "results quantum_task = []"
    by (simp_all add: quantum_task_def create_task_def)
  from orchestration_failure_leaves_task [OF o, of "''Quantum error correction''" "''Survey of recent codes''" 0] o p
  show ?thesis by blast
qed

subsection \<open>The string operations, against their meaning\<close>

text \<open>\<open>str_in\<close> is occurrence as a contiguous block, and the words of \<open>split\<close> are
  non-empty and free of white space.\<close>

lemma starts_with_iff: "starts_with p s \<longleftrightarrow> (\<exists>t. s = p @ t)"
  by (induction p s rule: starts_with.induct) auto

lemma str_in_iff: "str_in sub s \<longleftrightarrow> (\<exists>pre suf. s = pre @ sub @ suf)"
proof (induction s)
  case Nil
  then show ?case by auto
next
  case (Cons c cs)
  show ?case
  proof
    assume "str_in sub (c # cs)"
    then consider "starts_with sub (c # cs)" | "str_in sub cs" by auto
    then show "\<exists>pre suf. c # cs = pre @ sub @ suf"
    proof cases
      case 1
      then obtain t where "c # cs = sub @ t" using starts_with_iff by blast
      then have "c # cs = [] @ sub @ t" by simp
      then show ?thesis by blast
    next
      case 2
      with Cons.IH obtain pre suf where "cs = pre @ sub @ suf" by blast
      then have "c # cs = (c # pre) @ sub @ suf" by simp
      then show ?thesis by blast
    qed
  next
    assume "\<exists>pre suf. c # cs = pre @ sub @ suf"
    then obtain pre suf where e: "c # cs = pre @ sub @ suf" by blast
    show "str_in sub (c # cs)"
    proof (cases pre)
      case Nil
      with e have "starts_with sub (c # cs)" using starts_with_iff by auto
      then show ?thesis by simp
    next
      case (Cons d pre')
      with e have "cs = pre' @ sub @ suf" by simp
      with Cons.IH have "str_in sub cs" by blast
      then show ?thesis by simp
    qed
  qed
qed

lemma split_aux_words:
  "(\<forall>c \<in> set w. \<not> is_space c) \<Longrightarrow> x \<in> set (split_aux w s)
     \<Longrightarrow> x \<noteq> [] \<and> (\<forall>c \<in> set x. \<not> is_space c)"
proof (induction s arbitrary: w)
  case Nil
  then show ?case by (cases "w = []") simp_all
next
  case (Cons c cs)
  show ?case
  proof (cases "is_space c")
    case sp: True
    show ?thesis
    proof (cases "w = []")
      case True
      with sp Cons.prems have "x \<in> set (split_aux [] cs)" by simp
      then show ?thesis using Cons.IH [of "[]"] by simp
    next
      case False
      with sp Cons.prems have "x = rev w \<or> x \<in> set (split_aux [] cs)" by simp
      then show ?thesis
      proof
        assume "x = rev w"
        with False Cons.prems(1) show ?thesis by simp
      next
        assume "x \<in> set (split_aux [] cs)"
        then show ?thesis using Cons.IH [of "[]"] by simp
      qed
    qed
  next
    case False
    with Cons.prems have "x \<in> set (split_aux (c # w) cs)" by simp
    moreover from False Cons.prems(1) have "\<forall>d \<in> set (c # w). \<not> is_space d" by simp
    ultimately show ?thesis using Cons.IH [of "c # w"] by blast
  qed
qed

lemma split_words:
  "x \<in> set (split s) \<Longrightarrow> x \<noteq> [] \<and> (\<forall>c \<in> set x. \<not> is_space c)"
  using split_aux_words [of "[]" x s] by (simp add: split_def)

end
